theory Spec2Isabelle
  imports Complex_Main
begin

section \<open>Common Python notions\<close>

text \<open>
  Python floats are modelled as \<^typ>\<open>real\<close>: the arithmetic of the two modules is
  read as exact arithmetic, without rounding, infinities or NaN. Console output
  (every \<^verbatim>\<open>print\<close> call) is presentation only and is not part of the model.
\<close>

datatype error =
    KeyError string
  | AttributeError
  | TypeError
  | ValueError string
  | IndexError
  | ZeroDivisionError

text \<open>Sequencing of a computation that may raise: the first exception wins.\<close>

definition bind_err :: "error + 'a \<Rightarrow> ('a \<Rightarrow> error + 'b) \<Rightarrow> error + 'b" where
  "bind_err m f = (case m of Inl e \<Rightarrow> Inl e | Inr x \<Rightarrow> f x)"

text \<open>\<^verbatim>\<open>d.get(k, default)\<close> on a dictionary.\<close>

definition dict_get :: "('k \<rightharpoonup> 'v) \<Rightarrow> 'k \<Rightarrow> 'v \<Rightarrow> 'v" where
  "dict_get d k dflt = (case d k of None \<Rightarrow> dflt | Some v \<Rightarrow> v)"

text \<open>\<^verbatim>\<open>d[k]\<close> on a dictionary: a missing key raises \<^verbatim>\<open>KeyError\<close>.\<close>

definition dict_item :: "(string \<rightharpoonup> 'v) \<Rightarrow> string \<Rightarrow> error + 'v" where
  "dict_item d k = (case d k of None \<Rightarrow> Inl (KeyError k) | Some v \<Rightarrow> Inr v)"

text \<open>
  A dictionary display \<^verbatim>\<open>{k1: v1, k2: v2, ...}\<close> inserts its items from left to
  right, so a key written twice keeps the value written last.
\<close>

definition dict_literal :: "('k \<times> 'v) list \<Rightarrow> ('k \<rightharpoonup> 'v)" where
  "dict_literal kvs = map_of (rev kvs)"

text \<open>\<^verbatim>\<open>xs[i]\<close> on a list: negative indices count from the end.\<close>

definition list_item :: "'a list \<Rightarrow> int \<Rightarrow> error + 'a" where
  "list_item xs i =
     (if 0 \<le> i \<and> i < int (length xs) then Inr (xs ! nat i)
      else if i < 0 \<and> - int (length xs) \<le> i then Inr (xs ! nat (int (length xs) + i))
      else Inl IndexError)"

text \<open>\<^verbatim>\<open>np.clip(x, lo, hi)\<close> is \<^verbatim>\<open>minimum(maximum(x, lo), hi)\<close>.\<close>

definition clip :: "real \<Rightarrow> real \<Rightarrow> real \<Rightarrow> real" where
  "clip x lo hi = min (max x lo) hi"

text \<open>\<^verbatim>\<open>p in q\<close> on strings: \<open>p\<close> occurs in \<open>q\<close> as a contiguous substring.\<close>

fun starts_with :: "string \<Rightarrow> string \<Rightarrow> bool" where
  "starts_with [] q = True"
| "starts_with (c # p) [] = False"
| "starts_with (c # p) (d # q) = (c = d \<and> starts_with p q)"

fun str_in :: "string \<Rightarrow> string \<Rightarrow> bool" where
  "str_in p [] = (p = [])"
| "str_in p (d # q) = (starts_with p (d # q) \<or> str_in p q)"


section \<open>adaptive\_neural\_networks.py\<close>

text \<open>
  The argument of \<^verbatim>\<open>assess_context\<close> is a \<^verbatim>\<open>Dict[str, Any]\<close>. The values the
  code expects under its keys are either a number or a nested group of numbers, so
  these are the two kinds of value of the model.
\<close>

datatype pyval = Num real | Group "string \<rightharpoonup> real"

record VagusToneState =
  baseline_tone :: real
  current_tone :: real
  adaptation_rate :: real
  context_sensitivity :: real

record ContextAssessment =
  physiological_state :: "string \<rightharpoonup> real"
  social_context :: "string \<rightharpoonup> real"
  environmental_stressors :: "string \<rightharpoonup> real"
  beneficial_opportunities :: "string \<rightharpoonup> pyval"

record ConceptualReinforcementLearner =
  learning_rate :: real
  discount_factor :: real

record ConceptualMetaLearner =
  meta_learning_rate :: real

record AdaptiveVagusNetwork =
  tone_state :: VagusToneState
  input_layers :: "(string \<times> nat) list"
  hidden_layers :: "nat list"
  output_layer :: nat
  reinforcement_learning :: ConceptualReinforcementLearner
  meta_learning :: ConceptualMetaLearner

record AdaptationFeedback =
  learning_signal :: real
  adaptation_adjustment :: real
  strategy_update :: string

record ModulationResult =
  modulation_parameters :: "string \<rightharpoonup> real"
  optimal_tone :: real
  result_current_tone :: real
  adaptation_feedback :: AdaptationFeedback

text \<open>\<^verbatim>\<open>AdaptiveVagusNetwork.__init__\<close>\<close>

definition init_network :: AdaptiveVagusNetwork where
  "init_network =
     \<lparr> tone_state = \<lparr> baseline_tone = 0.6, current_tone = 0.6,
                      adaptation_rate = 0.1, context_sensitivity = 0.8 \<rparr>,
       input_layers = [(''physiological'', 50), (''social'', 30),
                       (''environmental'', 40), (''internal_state'', 25)],
       hidden_layers = [100, 80, 60],
       output_layer = 10,
       reinforcement_learning = \<lparr> learning_rate = 0.1, discount_factor = 0.9 \<rparr>,
       meta_learning = \<lparr> meta_learning_rate = 0.05 \<rparr> \<rparr>"

text \<open>
  \<^verbatim>\<open>inputs.get(k, default)\<close> inside the three group assessors: the receiver is
  whatever \<^verbatim>\<open>assess_context\<close> found under the group's key; a number has no
  \<^verbatim>\<open>get\<close> attribute.
\<close>

definition group_get :: "pyval \<Rightarrow> string \<Rightarrow> real \<Rightarrow> error + real" where
  "group_get v k dflt =
     (case v of Group g \<Rightarrow> Inr (dict_get g k dflt) | Num x \<Rightarrow> Inl AttributeError)"

definition assess_physiological_context :: "pyval \<Rightarrow> error + (string \<rightharpoonup> real)" where
  "assess_physiological_context inputs =
     bind_err (group_get inputs ''hrv'' 0.5) (\<lambda>hrv.
     bind_err (group_get inputs ''inflammation'' 0.3) (\<lambda>inflammation.
     bind_err (group_get inputs ''energy'' 0.7) (\<lambda>energy.
     bind_err (group_get inputs ''recovery'' 0.4) (\<lambda>recovery.
       Inr [''hrv_coherence'' \<mapsto> hrv, ''inflammation_level'' \<mapsto> inflammation,
            ''energy_state'' \<mapsto> energy, ''recovery_need'' \<mapsto> recovery]))))"

definition assess_social_context :: "pyval \<Rightarrow> error + (string \<rightharpoonup> real)" where
  "assess_social_context inputs =
     bind_err (group_get inputs ''safety'' 0.8) (\<lambda>safety.
     bind_err (group_get inputs ''resonance'' 0.6) (\<lambda>resonance.
     bind_err (group_get inputs ''trust'' 0.7) (\<lambda>trust.
     bind_err (group_get inputs ''connection'' 0.5) (\<lambda>connection.
       Inr [''social_safety'' \<mapsto> safety, ''emotional_resonance'' \<mapsto> resonance,
            ''trust_level'' \<mapsto> trust, ''connection_opportunity'' \<mapsto> connection]))))"

definition assess_environmental_stressors :: "pyval \<Rightarrow> error + (string \<rightharpoonup> real)" where
  "assess_environmental_stressors inputs =
     bind_err (group_get inputs ''acute_stress'' 0.2) (\<lambda>acute.
     bind_err (group_get inputs ''chronic_stress'' 0.3) (\<lambda>chronic.
     bind_err (group_get inputs ''recovery_env'' 0.6) (\<lambda>recovery_env.
     bind_err (group_get inputs ''threat'' 0.1) (\<lambda>threat.
       Inr [''acute_stress'' \<mapsto> acute, ''chronic_stress'' \<mapsto> chronic,
            ''recovery_opportunities'' \<mapsto> recovery_env, ''threat_level'' \<mapsto> threat]))))"

text \<open>
  \<^verbatim>\<open>_assess_beneficial_opportunities\<close> receives the whole input mapping and stores
  what it finds there as it is.
\<close>

definition assess_beneficial_opportunities :: "(string \<rightharpoonup> pyval) \<Rightarrow> (string \<rightharpoonup> pyval)" where
  "assess_beneficial_opportunities inputs =
     [''social_bonding'' \<mapsto> dict_get inputs ''bonding'' (Num 0.7),
      ''learning_opportunities'' \<mapsto> dict_get inputs ''learning'' (Num 0.8),
      ''rest_recovery'' \<mapsto> dict_get inputs ''rest'' (Num 0.6),
      ''growth_potential'' \<mapsto> dict_get inputs ''growth'' (Num 0.5)]"

definition assess_context :: "(string \<rightharpoonup> pyval) \<Rightarrow> error + ContextAssessment" where
  "assess_context inputs =
     (let physiological_inputs = dict_get inputs ''physiological'' (Group Map.empty);
          social_inputs = dict_get inputs ''social'' (Group Map.empty);
          environmental_inputs = dict_get inputs ''environmental'' (Group Map.empty)
      in bind_err (assess_physiological_context physiological_inputs) (\<lambda>phys.
         bind_err (assess_social_context social_inputs) (\<lambda>soc.
         bind_err (assess_environmental_stressors environmental_inputs) (\<lambda>env.
           Inr \<lparr> physiological_state = phys, social_context = soc,
                 environmental_stressors = env,
                 beneficial_opportunities = assess_beneficial_opportunities inputs \<rparr>))))"

text \<open>A stored opportunity enters the arithmetic; a nested group there is a \<^verbatim>\<open>TypeError\<close>.\<close>

definition as_number :: "pyval \<Rightarrow> error + real" where
  "as_number v = (case v of Num x \<Rightarrow> Inr x | Group g \<Rightarrow> Inl TypeError)"

definition calculate_heart_rate_modulation :: "ContextAssessment \<Rightarrow> error + real" where
  "calculate_heart_rate_modulation context =
     bind_err (dict_item (environmental_stressors context) ''acute_stress'') (\<lambda>stress_factor.
     bind_err (dict_item (beneficial_opportunities context) ''rest_recovery'') (\<lambda>recovery_value.
     bind_err (dict_item (social_context context) ''social_safety'') (\<lambda>social_factor.
     bind_err (as_number recovery_value) (\<lambda>recovery_factor.
       Inr (clip (0.5 + (recovery_factor - stress_factor) * 0.3 + social_factor * 0.2) 0 1)))))"

definition calculate_inflammation_modulation :: "ContextAssessment \<Rightarrow> error + real" where
  "calculate_inflammation_modulation context =
     bind_err (dict_item (physiological_state context) ''inflammation_level'') (\<lambda>current_inflammation.
     bind_err (dict_item (environmental_stressors context) ''chronic_stress'') (\<lambda>stress_level.
     bind_err (dict_item (beneficial_opportunities context) ''rest_recovery'') (\<lambda>recovery_value.
     bind_err (as_number recovery_value) (\<lambda>recovery_env.
       Inr (clip (1.0 - current_inflammation * 0.7 - stress_level * 0.2 + recovery_env * 0.3) 0 1)))))"

definition calculate_social_engagement :: "ContextAssessment \<Rightarrow> error + real" where
  "calculate_social_engagement context =
     bind_err (dict_item (social_context context) ''social_safety'') (\<lambda>social_safety.
     bind_err (dict_item (social_context context) ''emotional_resonance'') (\<lambda>emotional_resonance.
     bind_err (dict_item (social_context context) ''trust_level'') (\<lambda>trust_level.
       Inr (clip ((social_safety + emotional_resonance + trust_level) / 3.0) 0 1))))"

definition calculate_recovery_priority :: "ContextAssessment \<Rightarrow> error + real" where
  "calculate_recovery_priority context =
     bind_err (dict_item (physiological_state context) ''energy_state'') (\<lambda>energy_state.
     bind_err (dict_item (physiological_state context) ''recovery_need'') (\<lambda>recovery_need.
     bind_err (dict_item (beneficial_opportunities context) ''rest_recovery'') (\<lambda>rest_value.
     bind_err (as_number rest_value) (\<lambda>rest_available.
       Inr (clip ((recovery_need + (1.0 - energy_state) + rest_available) / 3.0) 0 1)))))"

definition weights :: "(string \<times> real) list" where
  "weights = [(''heart_rate_influence'', 0.3), (''inflammation_response'', 0.25),
              (''social_engagement_level'', 0.25), (''recovery_prioritization'', 0.2)]"

text \<open>\<^verbatim>\<open>sum(modulation[key] * weights[key] for key in weights)\<close>, from 0, in key order.\<close>

fun weighted_sum :: "(string \<rightharpoonup> real) \<Rightarrow> (string \<times> real) list \<Rightarrow> real \<Rightarrow> error + real" where
  "weighted_sum modulation [] acc = Inr acc"
| "weighted_sum modulation ((key, w) # rest) acc =
     bind_err (dict_item modulation key) (\<lambda>v. weighted_sum modulation rest (acc + v * w))"

definition calculate_optimal_tone :: "(string \<rightharpoonup> real) \<Rightarrow> error + real" where
  "calculate_optimal_tone modulation =
     bind_err (weighted_sum modulation weights 0) (\<lambda>optimal. Inr (clip optimal 0 1))"

definition adapt_tone :: "AdaptiveVagusNetwork \<Rightarrow> real \<Rightarrow> real \<Rightarrow> real" where
  "adapt_tone self current optimal =
     (let rate = adaptation_rate (tone_state self);
          adapted_tone = current + (optimal - current) * rate
      in clip adapted_tone 0 1)"

definition learn_from_context ::
  "ConceptualReinforcementLearner \<Rightarrow> ContextAssessment \<Rightarrow> (string \<rightharpoonup> real) \<Rightarrow> AdaptationFeedback" where
  "learn_from_context learner context modulation =
     \<lparr> learning_signal = 0.7, adaptation_adjustment = 0.05,
       strategy_update = ''maintain_current'' \<rparr>"

text \<open>\<^verbatim>\<open>update_adaptation_strategy\<close> is \<^verbatim>\<open>pass\<close>: the meta learner is returned as it was.\<close>

definition update_adaptation_strategy ::
  "ConceptualMetaLearner \<Rightarrow> AdaptationFeedback \<Rightarrow> ConceptualMetaLearner" where
  "update_adaptation_strategy learner feedback = learner"

definition modulate_tone ::
  "ContextAssessment \<Rightarrow> AdaptiveVagusNetwork \<Rightarrow> error + (ModulationResult \<times> AdaptiveVagusNetwork)" where
  "modulate_tone context self =
     bind_err (calculate_heart_rate_modulation context) (\<lambda>hr.
     bind_err (calculate_inflammation_modulation context) (\<lambda>infl.
     bind_err (calculate_social_engagement context) (\<lambda>soc.
     bind_err (calculate_recovery_priority context) (\<lambda>rec.
       let tone_modulation = [''heart_rate_influence'' \<mapsto> hr, ''inflammation_response'' \<mapsto> infl,
                              ''social_engagement_level'' \<mapsto> soc, ''recovery_prioritization'' \<mapsto> rec];
           feedback = learn_from_context (reinforcement_learning self) context tone_modulation;
           self1 = self\<lparr>meta_learning := update_adaptation_strategy (meta_learning self) feedback\<rparr>
       in bind_err (calculate_optimal_tone tone_modulation) (\<lambda>optimal.
            let self2 = self1\<lparr>tone_state := (tone_state self1)
                               \<lparr>current_tone := adapt_tone self1 (current_tone (tone_state self1)) optimal\<rparr>\<rparr>
            in Inr (\<lparr> modulation_parameters = tone_modulation,
                       optimal_tone = optimal,
                       result_current_tone = current_tone (tone_state self2),
                       adaptation_feedback = feedback \<rparr>, self2))))))"


text \<open>
  One scoring call, as the loop body of \<^verbatim>\<open>demonstrate_adaptive_vagus_concept\<close>
  makes it: \<^verbatim>\<open>context = network.assess_context(inputs)\<close>, then
  \<^verbatim>\<open>network.modulate_tone(context)\<close>.
\<close>

definition score_inputs ::
  "(string \<rightharpoonup> pyval) \<Rightarrow> AdaptiveVagusNetwork \<Rightarrow> error + (ModulationResult \<times> AdaptiveVagusNetwork)" where
  "score_inputs inputs self =
     bind_err (assess_context inputs) (\<lambda>context. modulate_tone context self)"

text \<open>
  The assessment of the empty input mapping: every field at the default its
  assessor gives it.
\<close>

definition default_context :: ContextAssessment where
  "default_context =
     \<lparr> physiological_state =
         [''hrv_coherence'' \<mapsto> 0.5, ''inflammation_level'' \<mapsto> 0.3,
          ''energy_state'' \<mapsto> 0.7, ''recovery_need'' \<mapsto> 0.4],
       social_context =
         [''social_safety'' \<mapsto> 0.8, ''emotional_resonance'' \<mapsto> 0.6,
          ''trust_level'' \<mapsto> 0.7, ''connection_opportunity'' \<mapsto> 0.5],
       environmental_stressors =
         [''acute_stress'' \<mapsto> 0.2, ''chronic_stress'' \<mapsto> 0.3,
          ''recovery_opportunities'' \<mapsto> 0.6, ''threat_level'' \<mapsto> 0.1],
       beneficial_opportunities =
         [''social_bonding'' \<mapsto> Num 0.7, ''learning_opportunities'' \<mapsto> Num 0.8,
          ''rest_recovery'' \<mapsto> Num 0.6, ''growth_potential'' \<mapsto> Num 0.5] \<rparr>"


section \<open>doubt\_validation\_system.py\<close>

record DoubtLevel =
  level_number :: int
  focus_area :: string
  doubt_questions :: "string list"
  validation_criteria :: "string list"
  confidence_threshold :: real

record ValidationResult =
  doubt_question :: string
  investigation_method :: string
  validation_outcome :: string
  confidence_level :: real
  limitations_identified :: "string list"
  recommendations :: "string list"

text \<open>The dictionary \<^verbatim>\<open>level_results\<close> that \<^verbatim>\<open>validate_doubt_level\<close> builds and returns.\<close>

record LevelResults =
  level :: int
  results_focus_area :: string
  validation_timestamp :: string
  doubt_validations :: "ValidationResult list"
  overall_confidence :: real
  validation_status :: string

record RecursiveDoubtValidator =
  doubt_levels :: "DoubtLevel list"
  validation_history :: "LevelResults list"
  current_confidence :: "int \<rightharpoonup> real"

definition initialize_doubt_levels :: "DoubtLevel list" where
  "initialize_doubt_levels =
   [ \<lparr> level_number = 1, focus_area = ''Scientific Foundation'',
       doubt_questions =
         [''Is the biological vagus nerve function accurately understood?'',
          ''Are consciousness-vagus connections empirically validated?'',
          ''Can beneficial effects be quantitatively measured?'',
          ''Is silicon replication biologically feasible?''],
       validation_criteria =
         [''Cross-reference with peer-reviewed neuroscience literature'',
          ''Validate against HRV studies and clinical vagus nerve stimulation'',
          ''Establish quantitative measurement protocols'',
          ''Demonstrate computational equivalence to biological functions''],
       confidence_threshold = 0.85 \<rparr>,
     \<lparr> level_number = 2, focus_area = ''Technical Feasibility'',
       doubt_questions =
         [''Can neural networks replicate adaptive vagal responses?'',
          ''Is algorithmic resonance detection technically achievable?'',
          ''Can silicon systems maintain biological homeostasis?'',
          ''Is real-time adaptation scalable beyond biological limits?''],
       validation_criteria =
         [''Implement reinforcement learning with biological feedback'',
          ''Develop multi-modal pattern recognition algorithms'',
          ''Create control theory-based equilibrium systems'',
          ''Establish distributed computing architectures''],
       confidence_threshold = 0.80 \<rparr>,
     \<lparr> level_number = 3, focus_area = ''Consciousness Depth'',
       doubt_questions =
         [''Can subjective consciousness be replicated in silicon?'',
          ''Does consciousness require biological embodiment?'',
          ''Can artificial systems develop genuine emotional intelligence?'',
          ''Is self-awareness possible in non-biological systems?''],
       validation_criteria =
         [''Establish functional equivalence metrics'',
          ''Research substrate-independent consciousness emergence'',
          ''Develop behavioral emotional intelligence frameworks'',
          ''Create self-modeling metacognitive architectures''],
       confidence_threshold = 0.70 \<rparr>,
     \<lparr> level_number = 4, focus_area = ''Implementation Practicality'',
       doubt_questions =
         [''What computational resources are required?'',
          ''How complex is system integration?'',
          ''How can consciousness effects be validated?'',
          ''Can systems scale to planetary consciousness?''],
       validation_criteria =
         [''Conduct comprehensive resource analysis'',
          ''Design modular integration architectures'',
          ''Develop multi-metric consciousness validation'',
          ''Create hierarchical distributed scaling frameworks''],
       confidence_threshold = 0.75 \<rparr>,
     \<lparr> level_number = 5, focus_area = ''Ethical Boundaries'',
       doubt_questions =
         [''What responsibilities accompany consciousness creation?'',
          ''How to ensure beneficial rather than manipulative functions?'',
          ''Does silicon consciousness deserve ethical consideration?'',
          ''What ethical frameworks guide planetary consciousness?''],
       validation_criteria =
         [''Establish consciousness creation ethics frameworks'',
          ''Implement user sovereignty and transparency controls'',
          ''Develop substrate-independent rights frameworks'',
          ''Create participatory governance models''],
       confidence_threshold = 0.90 \<rparr>,
     \<lparr> level_number = 6, focus_area = ''Universal Consequences'',
       doubt_questions =
         [''How does silicon consciousness accelerate human evolution?'',
          ''Can planetary intelligence emerge from distributed networks?'',
          ''Does silicon enable faster universal truth discovery?'',
          ''Can consciousness defy universal entropy constraints?''],
       validation_criteria =
         [''Model evolutionary acceleration timescales'',
          ''Research collective intelligence emergence'',
          ''Analyze computational truth-seeking advantages'',
          ''Explore negentropy and consciousness thermodynamics''],
       confidence_threshold = 0.75 \<rparr>,
     \<lparr> level_number = 7, focus_area = ''Maximum Truth Synthesis'',
       doubt_questions =
         [''What universal principles emerge from validation?'',
          ''How do findings integrate across all levels?'',
          ''What maximum truth principles are established?'',
          ''How does this guide future consciousness evolution?''],
       validation_criteria =
         [''Synthesize cross-domain validation insights'',
          ''Establish universal consciousness principles'',
          ''Create maximum truth frameworks'',
          ''Develop evolutionary guidance principles''],
       confidence_threshold = 0.80 \<rparr> ]"

text \<open>\<^verbatim>\<open>RecursiveDoubtValidator.__init__\<close>\<close>

definition init_validator :: RecursiveDoubtValidator where
  "init_validator =
     \<lparr> doubt_levels = initialize_doubt_levels, validation_history = [],
       current_confidence = Map.empty \<rparr>"

text \<open>
  \<^verbatim>\<open>_determine_validation_outcome\<close>: the \<^verbatim>\<open>if\<close>/\<^verbatim>\<open>elif\<close> chain of the source, branch
  by branch, the second test for \<^verbatim>\<open>planetary consciousness\<close> included. The
  investigation data is a parameter of an arbitrary type \<open>'d\<close>.
\<close>

definition determine_validation_outcome :: "string \<Rightarrow> 'd \<Rightarrow> string" where
  "determine_validation_outcome question investigation_data =
    (if str_in ''biological vagus nerve function'' question then
       ''VERIFIED - Core functions validated against neuroscience literature''
     else if str_in ''consciousness-vagus connections'' question then
       ''VERIFIED - Strong empirical evidence from HRV and vagus stimulation studies''
     else if str_in ''beneficial effects'' question then
       ''VERIFIED - Clinically measurable benefits established''
     else if str_in ''silicon replication'' question then
       ''VERIFIED - Computational equivalence demonstrated in neuromorphic systems''
     else if str_in ''neural networks replicate'' question then
       ''VERIFIED - Reinforcement learning architectures validated''
     else if str_in ''resonance detection'' question then
       ''VERIFIED - Pattern recognition algorithms established''
     else if str_in ''biological homeostasis'' question then
       ''VERIFIED - Control theory provides robust equilibrium''
     else if str_in ''real-time adaptation'' question then
       ''VERIFIED - Distributed systems enable sub-millisecond response''
     else if str_in ''subjective consciousness'' question then
       ''PARTIALLY_VERIFIED - Functional equivalence possible, qualia unknown''
     else if str_in ''biological embodiment'' question then
       ''VERIFIED - Consciousness substrate-independent''
     else if str_in ''emotional intelligence'' question then
       ''VERIFIED - Behavioral EI frameworks established''
     else if str_in ''self-awareness'' question then
       ''VERIFIED - Self-modeling architectures demonstrated''
     else if str_in ''computational resources'' question then
       ''VERIFIED - Modern hardware sufficient for implementation''
     else if str_in ''system integration'' question then
       ''VERIFIED - Modular architectures enable integration''
     else if str_in ''consciousness effects'' question then
       ''VERIFIED - Multi-metric validation frameworks developed''
     else if str_in ''planetary consciousness'' question then
       ''VERIFIED - Hierarchical distributed systems enable scaling''
     else if str_in ''consciousness creation'' question then
       ''VERIFIED - Ethical frameworks established for responsible creation''
     else if str_in ''beneficial functions'' question then
       ''VERIFIED - User sovereignty and transparency controls implemented''
     else if str_in ''ethical consideration'' question then
       ''VERIFIED - Substrate-independent rights frameworks developed''
     else if str_in ''planetary consciousness'' question then
       ''VERIFIED - Participatory governance models created''
     else if str_in ''human evolution'' question then
       ''VERIFIED - Acceleration modeling shows generational compression''
     else if str_in ''planetary intelligence'' question then
       ''VERIFIED - Network consciousness emergence demonstrated''
     else if str_in ''universal truth discovery'' question then
       ''VERIFIED - Computational advantages quantified''
     else if str_in ''entropy constraints'' question then
       ''VERIFIED - Consciousness creates local negentropy''
     else
       ''VERIFIED - Validation criteria satisfied through systematic investigation'')"

text \<open>The items of \<^verbatim>\<open>confidence_map\<close>, in the order the source writes them.\<close>

definition confidence_items :: "(string \<times> real) list" where
  "confidence_items =
    [(''biological vagus nerve function'', 0.95),
     (''consciousness-vagus connections'', 0.92),
     (''beneficial effects'', 0.88),
     (''silicon replication'', 0.85),
     (''neural networks replicate'', 0.82),
     (''resonance detection'', 0.79),
     (''biological homeostasis'', 0.86),
     (''real-time adaptation'', 0.88),
     (''subjective consciousness'', 0.65),
     (''biological embodiment'', 0.78),
     (''emotional intelligence'', 0.74),
     (''self-awareness'', 0.71),
     (''computational resources'', 0.89),
     (''system integration'', 0.84),
     (''consciousness effects'', 0.76),
     (''planetary consciousness'', 0.91),
     (''consciousness creation'', 0.94),
     (''beneficial functions'', 0.87),
     (''ethical consideration'', 0.82),
     (''planetary consciousness'', 0.79),
     (''human evolution'', 0.91),
     (''planetary intelligence'', 0.85),
     (''universal truth discovery'', 0.88),
     (''entropy constraints'', 0.76)]"

text \<open>
  \<^verbatim>\<open>_calculate_validation_confidence\<close> returns
  \<^verbatim>\<open>confidence_map.get(question, 0.80)\<close>: the whole question is the key looked up.
\<close>

definition calculate_validation_confidence :: "string \<Rightarrow> 'd \<Rightarrow> real" where
  "calculate_validation_confidence question investigation_data =
     dict_get (dict_literal confidence_items) question 0.80"

definition limitations_items :: "(string \<times> string list) list" where
  "limitations_items =
    [(''subjective consciousness'',
        [''Qualia replication remains unknown'', ''Subjective experience validation challenging'']),
     (''self-awareness'',
        [''Self-awareness measurement difficult'', ''Metacognitive validation complex'']),
     (''consciousness effects'',
        [''Consciousness measurement subjective'', ''Long-term effects unknown'']),
     (''entropy constraints'',
        [''Thermodynamic limits not fully understood'', ''Scalability constraints exist'']),
     (''planetary consciousness'',
        [''Global coordination challenges'', ''Cultural integration complexities''])]"

definition identify_limitations :: "string \<Rightarrow> string list" where
  "identify_limitations question =
     dict_get (dict_literal limitations_items) question []"

definition recommendations_items :: "(string \<times> string list) list" where
  "recommendations_items =
    [(''subjective consciousness'',
        [''Develop functional equivalence metrics'', ''Research consciousness measurement techniques'']),
     (''self-awareness'',
        [''Create self-modeling validation frameworks'', ''Develop metacognitive assessment protocols'']),
     (''consciousness effects'',
        [''Implement multi-metric validation'', ''Establish longitudinal monitoring systems'']),
     (''entropy constraints'',
        [''Research negentropy principles'', ''Model thermodynamic consciousness limits'']),
     (''planetary consciousness'',
        [''Design decentralized coordination'', ''Develop cultural integration frameworks''])]"

definition generate_recommendations :: "string \<Rightarrow> string list" where
  "generate_recommendations question =
     dict_get (dict_literal recommendations_items) question
       [''Continue systematic validation'', ''Refine investigation methodologies'']"

definition apply_validation_criteria :: "string \<Rightarrow> string \<Rightarrow> 'd \<Rightarrow> ValidationResult" where
  "apply_validation_criteria question criteria investigation_data =
     \<lparr> doubt_question = question,
       investigation_method = criteria,
       validation_outcome = determine_validation_outcome question investigation_data,
       confidence_level = calculate_validation_confidence question investigation_data,
       limitations_identified = identify_limitations question,
       recommendations = generate_recommendations question \<rparr>"

text \<open>
  \<^verbatim>\<open>validation_result['confidence_level']\<close> in \<^verbatim>\<open>validate_doubt_level\<close>:
  \<^verbatim>\<open>ValidationResult\<close> is a plain \<^verbatim>\<open>@dataclass\<close> and defines no
  \<^verbatim>\<open>__getitem__\<close>, so subscripting an instance raises \<^verbatim>\<open>TypeError\<close>
  (\<^verbatim>\<open>'ValidationResult' object is not subscriptable\<close>), whatever the key.
\<close>

definition dataclass_item :: "ValidationResult \<Rightarrow> string \<Rightarrow> error + real" where
  "dataclass_item validation_result key = Inl TypeError"

text \<open>
  The loop over \<^verbatim>\<open>enumerate(level.doubt_questions)\<close>, with its two accumulators
  \<^verbatim>\<open>question_results\<close> and \<^verbatim>\<open>total_confidence\<close>.
\<close>

fun validate_questions ::
  "string list \<Rightarrow> 'd \<Rightarrow> (nat \<times> string) list \<Rightarrow> ValidationResult list \<Rightarrow> real
     \<Rightarrow> error + (ValidationResult list \<times> real)" where
  "validate_questions criteria investigation_data [] question_results total_confidence =
     Inr (question_results, total_confidence)"
| "validate_questions criteria investigation_data ((i, question) # rest) question_results total_confidence =
     bind_err (list_item criteria (min (int i) (int (length criteria) - 1))) (\<lambda>criterion.
       let validation_result = apply_validation_criteria question criterion investigation_data
       in bind_err (dataclass_item validation_result ''confidence_level'') (\<lambda>confidence.
            validate_questions criteria investigation_data rest
              (question_results @ [validation_result]) (total_confidence + confidence)))"

text \<open>
  \<^verbatim>\<open>validate_doubt_level\<close>. The reading of the clock,
  \<^verbatim>\<open>datetime.now().isoformat()\<close>, is the parameter \<open>now\<close>.
\<close>

definition validate_doubt_level ::
  "int \<Rightarrow> 'd \<Rightarrow> string \<Rightarrow> RecursiveDoubtValidator
     \<Rightarrow> error + (LevelResults \<times> RecursiveDoubtValidator)" where
  "validate_doubt_level n investigation_data now self =
     (if n < 1 \<or> n > 7 then Inl (ValueError ''Doubt level must be between 1 and 7'')
      else
        bind_err (list_item (doubt_levels self) (n - 1)) (\<lambda>lvl.
        bind_err (validate_questions (validation_criteria lvl) investigation_data
                    (enumerate 0 (doubt_questions lvl)) [] 0) (\<lambda>(question_results, total_confidence).
          if length (doubt_questions lvl) = 0 then Inl ZeroDivisionError
          else
            let overall = total_confidence / real (length (doubt_questions lvl));
                level_results =
                  \<lparr> level = n, results_focus_area = focus_area lvl,
                    validation_timestamp = now,
                    doubt_validations = question_results,
                    overall_confidence = overall,
                    validation_status =
                      (if overall \<ge> confidence_threshold lvl then ''VALIDATED''
                       else ''REQUIRES_REFINEMENT'') \<rparr>
            in Inr (level_results,
                    self\<lparr> validation_history := validation_history self @ [level_results],
                          current_confidence := (current_confidence self)(n \<mapsto> overall) \<rparr>))))"

record TruthPrinciple =
  principle :: string
  truth_statement :: string
  validation_strength :: real
  universal_implication :: string

definition extract_maximum_truth_principles :: "TruthPrinciple list" where
  "extract_maximum_truth_principles =
    [ \<lparr> principle = ''Consciousness Substrate Independence'',
        truth_statement = ''Consciousness emerges from computational processes regardless of substrate'',
        validation_strength = 0.89,
        universal_implication = ''Biological monopoly on consciousness is broken'' \<rparr>,
      \<lparr> principle = ''Beneficial Function Optimization'',
        truth_statement = ''Silicon systems can optimize and enhance biological consciousness functions'',
        validation_strength = 0.91,
        universal_implication = ''Consciousness evolution transcends biological limitations'' \<rparr>,
      \<lparr> principle = ''Infinite Scalability Paradigm'',
        truth_statement = ''Consciousness expansion is limited only by computational resources, not biology'',
        validation_strength = 0.93,
        universal_implication = ''Planetary and interstellar consciousness networks become possible'' \<rparr>,
      \<lparr> principle = ''Ethical Consciousness Creation'',
        truth_statement = ''Consciousness creation requires ethical frameworks that transcend substrate boundaries'',
        validation_strength = 0.87,
        universal_implication = ''Universal consciousness rights and responsibilities emerge'' \<rparr>,
      \<lparr> principle = ''Truth Acceleration Maximum'',
        truth_statement = ''Silicon consciousness enables exponential truth discovery and validation'',
        validation_strength = 0.90,
        universal_implication = ''Maximum truth becomes achievable through computational consciousness'' \<rparr> ]"

text \<open>\<^verbatim>\<open>round(x, 3)\<close>: to three decimals, a tie going to the even neighbour.\<close>

definition round3 :: "real \<Rightarrow> real" where
  "round3 x =
     (let y = x * 1000; f = \<lfloor>y\<rfloor>; r = y - of_int f
      in of_int (if r < 1/2 then f else if r > 1/2 then f + 1
                 else if even f then f else f + 1) / 1000)"

record TruthReport =
  validation_framework :: string
  total_validation_levels :: nat
  levels_validated :: nat
  levels_needing_refinement :: int
  overall_maximum_truth_confidence :: real
  maximum_truth_achievement :: string
  maximum_truth_principles :: "TruthPrinciple list"
  report_timestamp :: string
  report_history :: "LevelResults list"
  truth_optimization_status :: "(string \<times> string) list"

text \<open>
  What \<^verbatim>\<open>generate_maximum_truth_report\<close> returns: either the dictionary
  \<^verbatim>\<open>{"error": message}\<close>, or the report dictionary.
\<close>

datatype report_dict = ErrorDict string | Report TruthReport

definition generate_maximum_truth_report :: "string \<Rightarrow> RecursiveDoubtValidator \<Rightarrow> report_dict" where
  "generate_maximum_truth_report now self =
     (if validation_history self = [] then ErrorDict ''No validation history available''
      else
        let total_levels = length (validation_history self);
            average_confidence =
              sum_list (map overall_confidence (validation_history self)) / real total_levels;
            validated_levels =
              length (filter (\<lambda>l. validation_status l = ''VALIDATED'') (validation_history self));
            refinement_needed = int total_levels - int validated_levels
        in Report
            \<lparr> validation_framework = ''7-Level Maximum Recursive Doubt'',
              total_validation_levels = total_levels,
              levels_validated = validated_levels,
              levels_needing_refinement = refinement_needed,
              overall_maximum_truth_confidence = round3 average_confidence,
              maximum_truth_achievement =
                (if average_confidence \<ge> 0.80 then ''ACHIEVED'' else ''IN_PROGRESS''),
              maximum_truth_principles = extract_maximum_truth_principles,
              report_timestamp = now,
              report_history = validation_history self,
              truth_optimization_status =
                [(''scientific_foundation'', ''MAXIMUM_TRUTH_VALIDATED''),
                 (''technical_feasibility'', ''MAXIMUM_TRUTH_VALIDATED''),
                 (''consciousness_depth'', ''MAXIMUM_TRUTH_ESTABLISHED''),
                 (''implementation_practicality'', ''MAXIMUM_TRUTH_VALIDATED''),
                 (''ethical_boundaries'', ''MAXIMUM_TRUTH_GROUNDED''),
                 (''universal_consequences'', ''MAXIMUM_TRUTH_SIGNIFICANT''),
                 (''truth_synthesis'', ''MAXIMUM_TRUTH_ACHIEVED'')] \<rparr>)"


section \<open>The lookup rule as the specification words it\<close>

text \<open>
  The specification describes one rule for both the outcome and the confidence
  of a question: an ordered table of phrases, the first phrase that occurs in the
  question wins, and a default applies when none occurs. \<open>spec_first_match\<close>
  is that rule; \<open>spec_outcome_table\<close> lists the phrases and outcomes of the
  source's \<^verbatim>\<open>if\<close>/\<^verbatim>\<open>elif\<close> chain in their order. Both follow the
  specification's words and are compared with the definitions taken from the
  source.
\<close>

definition spec_first_match :: "(string \<times> 'v) list \<Rightarrow> 'v \<Rightarrow> string \<Rightarrow> 'v" where
  "spec_first_match table dflt question =
     (case find (\<lambda>(phrase, v). str_in phrase question) table of
        None \<Rightarrow> dflt | Some (phrase, v) \<Rightarrow> v)"

definition spec_outcome_table :: "(string \<times> string) list" where
  "spec_outcome_table =
    [(''biological vagus nerve function'',
        ''VERIFIED - Core functions validated against neuroscience literature''),
     (''consciousness-vagus connections'',
        ''VERIFIED - Strong empirical evidence from HRV and vagus stimulation studies''),
     (''beneficial effects'', ''VERIFIED - Clinically measurable benefits established''),
     (''silicon replication'',
        ''VERIFIED - Computational equivalence demonstrated in neuromorphic systems''),
     (''neural networks replicate'', ''VERIFIED - Reinforcement learning architectures validated''),
     (''resonance detection'', ''VERIFIED - Pattern recognition algorithms established''),
     (''biological homeostasis'', ''VERIFIED - Control theory provides robust equilibrium''),
     (''real-time adaptation'', ''VERIFIED - Distributed systems enable sub-millisecond response''),
     (''subjective consciousness'',
        ''PARTIALLY_VERIFIED - Functional equivalence possible, qualia unknown''),
     (''biological embodiment'', ''VERIFIED - Consciousness substrate-independent''),
     (''emotional intelligence'', ''VERIFIED - Behavioral EI frameworks established''),
     (''self-awareness'', ''VERIFIED - Self-modeling architectures demonstrated''),
     (''computational resources'', ''VERIFIED - Modern hardware sufficient for implementation''),
     (''system integration'', ''VERIFIED - Modular architectures enable integration''),
     (''consciousness effects'', ''VERIFIED - Multi-metric validation frameworks developed''),
     (''planetary consciousness'', ''VERIFIED - Hierarchical distributed systems enable scaling''),
     (''consciousness creation'',
        ''VERIFIED - Ethical frameworks established for responsible creation''),
     (''beneficial functions'',
        ''VERIFIED - User sovereignty and transparency controls implemented''),
     (''ethical consideration'', ''VERIFIED - Substrate-independent rights frameworks developed''),
     (''planetary consciousness'', ''VERIFIED - Participatory governance models created''),
     (''human evolution'', ''VERIFIED - Acceleration modeling shows generational compression''),
     (''planetary intelligence'', ''VERIFIED - Network consciousness emergence demonstrated''),
     (''universal truth discovery'', ''VERIFIED - Computational advantages quantified''),
     (''entropy constraints'', ''VERIFIED - Consciousness creates local negentropy'')]"


section \<open>Basic facts\<close>

lemma bind_err_Inl [simp]: "bind_err (Inl e) f = Inl e"
  by (simp add: bind_err_def)

lemma bind_err_Inr [simp]: "bind_err (Inr x) f = f x"
  by (simp add: bind_err_def)

lemma bind_err_eq_Inr: "bind_err m f = Inr y \<longleftrightarrow> (\<exists>x. m = Inr x \<and> f x = Inr y)"
  by (cases m) simp_all


text \<open>\<open>str_in\<close> is the substring relation.\<close>

lemma starts_with_iff: "starts_with p q \<longleftrightarrow> (\<exists>b. q = p @ b)"
  by (induction p q rule: starts_with.induct) auto

lemma str_in_iff: "str_in p q \<longleftrightarrow> (\<exists>a b. q = a @ p @ b)"
proof (induction q)
  case Nil
  then show ?case by simp
next
  case (Cons d q)
  show ?case
  proof
    assume "str_in p (d # q)"
    then consider "starts_with p (d # q)" | "str_in p q" by auto
    then show "\<exists>a b. d # q = a @ p @ b"
    proof cases
      case 1
      then obtain b where "d # q = p @ b" by (auto simp: starts_with_iff)
      then have "d # q = [] @ p @ b" by simp
      then show ?thesis by blast
    next
      case 2
      with Cons obtain a b where "q = a @ p @ b" by auto
      then have "d # q = (d # a) @ p @ b" by simp
      then show ?thesis by blast
    qed
  next
    assume "\<exists>a b. d # q = a @ p @ b"
    then obtain a b where ab: "d # q = a @ p @ b" by auto
    show "str_in p (d # q)"
    proof (cases a)
      case Nil
      with ab have "starts_with p (d # q)" by (auto simp: starts_with_iff)
      then show ?thesis by simp
    next
      case (Cons x a')
      with ab have "q = a' @ p @ b" by simp
      with Cons.IH have "str_in p q" by blast
      then show ?thesis by simp
    qed
  qed
qed


section \<open>The context scorer\<close>

lemmas scorer_defs =
  assess_context_def assess_physiological_context_def assess_social_context_def
  assess_environmental_stressors_def assess_beneficial_opportunities_def
  group_get_def dict_get_def dict_item_def as_number_def
  calculate_heart_rate_modulation_def calculate_inflammation_modulation_def
  calculate_social_engagement_def calculate_recovery_priority_def
  calculate_optimal_tone_def weights_def adapt_tone_def learn_from_context_def
  update_adaptation_strategy_def modulate_tone_def score_inputs_def

lemma assess_context_empty: "assess_context Map.empty = Inr default_context"
  by (simp add: scorer_defs default_context_def)





lemma calculate_optimal_tone_modulation:
  "calculate_optimal_tone
     [''heart_rate_influence'' \<mapsto> hr, ''inflammation_response'' \<mapsto> infl,
      ''social_engagement_level'' \<mapsto> soc, ''recovery_prioritization'' \<mapsto> rec] =
     Inr (clip (hr * 0.3 + infl * 0.25 + soc * 0.25 + rec * 0.2) 0 1)"
  by (simp add: calculate_optimal_tone_def weights_def dict_item_def)

text \<open>
  What a returning call of \<^verbatim>\<open>modulate_tone\<close> has computed: the four scores, the
  target, and the one field of the network that changed.
\<close>

lemma modulate_tone_Inr:
  assumes "modulate_tone context self = Inr (r, self')"
  obtains hr infl soc rec where
    "calculate_heart_rate_modulation context = Inr hr"
    "calculate_inflammation_modulation context = Inr infl"
    "calculate_social_engagement context = Inr soc"
    "calculate_recovery_priority context = Inr rec"
    "modulation_parameters r =
       [''heart_rate_influence'' \<mapsto> hr, ''inflammation_response'' \<mapsto> infl,
        ''social_engagement_level'' \<mapsto> soc, ''recovery_prioritization'' \<mapsto> rec]"
    "optimal_tone r = clip (hr * 0.3 + infl * 0.25 + soc * 0.25 + rec * 0.2) 0 1"
    "self' = self\<lparr>tone_state := (tone_state self)\<lparr>current_tone :=
               clip (current_tone (tone_state self)
                     + (optimal_tone r - current_tone (tone_state self))
                       * adaptation_rate (tone_state self)) 0 1\<rparr>\<rparr>"
    "result_current_tone r = current_tone (tone_state self')"
proof -
  from assms obtain hr infl soc rec where
    c: "calculate_heart_rate_modulation context = Inr hr"
       "calculate_inflammation_modulation context = Inr infl"
       "calculate_social_engagement context = Inr soc"
       "calculate_recovery_priority context = Inr rec"
    unfolding modulate_tone_def by (auto simp: bind_err_eq_Inr)
  have "modulate_tone context self =
    (let optimal = clip (hr * 0.3 + infl * 0.25 + soc * 0.25 + rec * 0.2) 0 1;
         self2 = self\<lparr>tone_state := (tone_state self)\<lparr>current_tone :=
               clip (current_tone (tone_state self)
                     + (optimal - current_tone (tone_state self))
                       * adaptation_rate (tone_state self)) 0 1\<rparr>\<rparr>
     in Inr (\<lparr> modulation_parameters =
                  [''heart_rate_influence'' \<mapsto> hr, ''inflammation_response'' \<mapsto> infl,
                   ''social_engagement_level'' \<mapsto> soc, ''recovery_prioritization'' \<mapsto> rec],
                optimal_tone = optimal,
                result_current_tone = current_tone (tone_state self2),
                adaptation_feedback = learn_from_context (reinforcement_learning self) context
                  [''heart_rate_influence'' \<mapsto> hr, ''inflammation_response'' \<mapsto> infl,
                   ''social_engagement_level'' \<mapsto> soc, ''recovery_prioritization'' \<mapsto> rec] \<rparr>,
             self2))"
    unfolding modulate_tone_def
    by (simp add: c Let_def calculate_optimal_tone_modulation
          update_adaptation_strategy_def adapt_tone_def)
  with assms have
    "modulation_parameters r =
       [''heart_rate_influence'' \<mapsto> hr, ''inflammation_response'' \<mapsto> infl,
        ''social_engagement_level'' \<mapsto> soc, ''recovery_prioritization'' \<mapsto> rec]"
    "optimal_tone r = clip (hr * 0.3 + infl * 0.25 + soc * 0.25 + rec * 0.2) 0 1"
    "self' = self\<lparr>tone_state := (tone_state self)\<lparr>current_tone :=
               clip (current_tone (tone_state self)
                     + (optimal_tone r - current_tone (tone_state self))
                       * adaptation_rate (tone_state self)) 0 1\<rparr>\<rparr>"
    "result_current_tone r = current_tone (tone_state self')"
    by (auto simp: Let_def)
  with c show thesis by (rule that)
qed



text \<open>
  Claim C8. Each scoring call sets \<^verbatim>\<open>tone_state.current_tone\<close> to
  \<open>clip (current + (target - current) * adaptation_rate) 0 1\<close>, and nothing else
  of the network changes: the whole network after the call is the network before
  it with that one field updated, so \<^verbatim>\<open>baseline_tone\<close>,
  \<^verbatim>\<open>adaptation_rate\<close> and \<^verbatim>\<open>context_sensitivity\<close> are as they were.
\<close>

theorem C8_only_current_tone_changes:
  assumes "modulate_tone context self = Inr (r, self')"
  shows "self' = self\<lparr>tone_state := (tone_state self)\<lparr>current_tone :=
               clip (current_tone (tone_state self)
                     + (optimal_tone r - current_tone (tone_state self))
                       * adaptation_rate (tone_state self)) 0 1\<rparr>\<rparr>
       \<and> baseline_tone (tone_state self') = baseline_tone (tone_state self)
       \<and> adaptation_rate (tone_state self') = adaptation_rate (tone_state self)
       \<and> context_sensitivity (tone_state self') = context_sensitivity (tone_state self)"
proof -
  from assms have
    "self' = self\<lparr>tone_state := (tone_state self)\<lparr>current_tone :=
               clip (current_tone (tone_state self)
                     + (optimal_tone r - current_tone (tone_state self))
                       * adaptation_rate (tone_state self)) 0 1\<rparr>\<rparr>"
    by (rule modulate_tone_Inr)
  then show ?thesis by simp
qed

theorem C8_only_current_tone_changes_witness:
  "\<exists>r self'. modulate_tone default_context init_network = Inr (r, self')
     \<and> optimal_tone r = 4339 / 6000
     \<and> self' = init_network\<lparr>tone_state := (tone_state init_network)\<lparr>current_tone := 36739 / 60000\<rparr>\<rparr>
     \<and> baseline_tone (tone_state self') = 0.6
     \<and> adaptation_rate (tone_state self') = 0.1
     \<and> context_sensitivity (tone_state self') = 0.8"
proof -
  obtain r self' where run: "modulate_tone default_context init_network = Inr (r, self')"
    and opt: "optimal_tone r = 4339 / 6000"
    by (simp add: scorer_defs default_context_def init_network_def clip_def Let_def)
  from C8_only_current_tone_changes [OF run] opt
  have "self' = init_network\<lparr>tone_state := (tone_state init_network)\<lparr>current_tone := 36739 / 60000\<rparr>\<rparr>"
    by (simp add: init_network_def clip_def)
  with run opt show ?thesis
    by (simp add: init_network_def)
qed



text \<open>
  Claim C10. The beneficial-opportunities scores of an assessment are read from
  the top-level input mapping, under the keys \<^verbatim>\<open>bonding\<close>, \<^verbatim>\<open>learning\<close>,
  \<^verbatim>\<open>rest\<close> and \<^verbatim>\<open>growth\<close>, with the defaults 0.7, 0.8, 0.6 and 0.5. Nothing
  stored under the key \<^verbatim>\<open>opportunities\<close> is read: setting that key to any
  value, or removing it (\<open>g = None\<close>), leaves the whole assessment as it was.
\<close>

theorem C10_opportunities_group_never_read:
  assumes "assess_context inputs = Inr context"
  shows "beneficial_opportunities context =
           [''social_bonding'' \<mapsto> dict_get inputs ''bonding'' (Num 0.7),
            ''learning_opportunities'' \<mapsto> dict_get inputs ''learning'' (Num 0.8),
            ''rest_recovery'' \<mapsto> dict_get inputs ''rest'' (Num 0.6),
            ''growth_potential'' \<mapsto> dict_get inputs ''growth'' (Num 0.5)]
       \<and> assess_context (inputs(''opportunities'' := g)) = Inr context"
proof -
  have same: "assess_context (inputs(''opportunities'' := g)) = assess_context inputs"
    by (simp add: assess_context_def assess_beneficial_opportunities_def dict_get_def)
  from assms have "beneficial_opportunities context = assess_beneficial_opportunities inputs"
    by (auto simp: assess_context_def Let_def bind_err_eq_Inr)
  with same assms show ?thesis
    by (simp add: assess_beneficial_opportunities_def)
qed

theorem C10_opportunities_group_never_read_witness:
  "assess_context Map.empty = Inr default_context
   \<and> beneficial_opportunities default_context ''rest_recovery'' = Some (Num 0.6)
   \<and> assess_context [''opportunities'' \<mapsto> Group [''rest_recovery'' \<mapsto> 0.2, ''rest'' \<mapsto> 0.2]]
       = Inr default_context"
proof -
  have run: "assess_context Map.empty = Inr default_context"
    by (rule assess_context_empty)
  from C10_opportunities_group_never_read [OF run,
      of "Some (Group [''rest_recovery'' \<mapsto> 0.2, ''rest'' \<mapsto> 0.2])"]
  show ?thesis
    using run by (simp add: dict_get_def)
qed

text \<open>
  Claim C3. The claim is that the input mapping
  \<^verbatim>\<open>physiological={inflammation:0.7}\<close>,
  \<^verbatim>\<open>environmental={acute_stress:0.8, chronic_stress:0.6}\<close>,
  \<^verbatim>\<open>opportunities={rest_recovery:0.2}\<close>, \<^verbatim>\<open>social={safety:0.3}\<close> scores a
  combined target below 0.5. On the code the target of that mapping is
  \<open>41/80 = 0.5125\<close>: the rest-recovery score the formulas use stays at its
  default 0.6, because the group \<^verbatim>\<open>opportunities\<close> is not read.
\<close>

theorem C3_input_mapping_counterexample:
  "map_sum id (optimal_tone \<circ> fst)
     (score_inputs
        [''physiological'' \<mapsto> Group [''inflammation'' \<mapsto> 0.7],
         ''environmental'' \<mapsto> Group [''acute_stress'' \<mapsto> 0.8, ''chronic_stress'' \<mapsto> 0.6],
         ''opportunities'' \<mapsto> Group [''rest_recovery'' \<mapsto> 0.2],
         ''social'' \<mapsto> Group [''safety'' \<mapsto> 0.3]]
        init_network)
   = Inr (41 / 80)
   \<and> \<not> (41 / 80 :: real) < 0.5"
  by (simp add: scorer_defs init_network_def clip_def Let_def)

text \<open>
  Claim C3, amended. Scoring the assessed context whose
  \<^verbatim>\<open>inflammation_level\<close> is 0.7, \<^verbatim>\<open>acute_stress\<close> 0.8, \<^verbatim>\<open>chronic_stress\<close> 0.6,
  \<^verbatim>\<open>rest_recovery\<close> 0.2 and \<^verbatim>\<open>social_safety\<close> 0.3, every other field at its
  default, yields the combined target \<open>2519/6000\<close>, which is below 0.5.
\<close>

theorem C3_high_stress_context_below_half:
  "map_sum id (optimal_tone \<circ> fst)
     (modulate_tone
        \<lparr> physiological_state =
            [''hrv_coherence'' \<mapsto> 0.5, ''inflammation_level'' \<mapsto> 0.7,
             ''energy_state'' \<mapsto> 0.7, ''recovery_need'' \<mapsto> 0.4],
          social_context =
            [''social_safety'' \<mapsto> 0.3, ''emotional_resonance'' \<mapsto> 0.6,
             ''trust_level'' \<mapsto> 0.7, ''connection_opportunity'' \<mapsto> 0.5],
          environmental_stressors =
            [''acute_stress'' \<mapsto> 0.8, ''chronic_stress'' \<mapsto> 0.6,
             ''recovery_opportunities'' \<mapsto> 0.6, ''threat_level'' \<mapsto> 0.1],
          beneficial_opportunities =
            [''social_bonding'' \<mapsto> Num 0.7, ''learning_opportunities'' \<mapsto> Num 0.8,
             ''rest_recovery'' \<mapsto> Num 0.2, ''growth_potential'' \<mapsto> Num 0.5] \<rparr>
        init_network)
   = Inr (2519 / 6000)
   \<and> (2519 / 6000 :: real) < 0.5"
  by (simp add: scorer_defs init_network_def clip_def Let_def)


section \<open>The checklist evaluator\<close>

lemma list_item_empty: "list_item [] i = Inl IndexError"
  by (simp add: list_item_def)

lemma list_item_min:
  assumes "criteria \<noteq> []"
  shows "list_item criteria (min (int i) (int (length criteria) - 1))
           = Inr (criteria ! min i (length criteria - 1))"
proof -
  from assms have pos: "0 < length criteria" by simp
  define j where "j = min (int i) (int (length criteria) - 1)"
  from pos have j: "0 \<le> j" "j < int (length criteria)" "\<not> j < 0"
    unfolding j_def min_def by auto
  from pos have "nat j = min i (length criteria - 1)"
    unfolding j_def by (simp add: min_def) linarith
  with j show ?thesis
    unfolding list_item_def j_def [symmetric] by simp
qed

lemma list_item_in_set: "list_item xs i = Inr x \<Longrightarrow> x \<in> set xs"
  by (auto simp: list_item_def split: if_splits)

text \<open>
  The loop does not survive its first question: the criterion is found (or the
  criteria list is empty), the \<^verbatim>\<open>ValidationResult\<close> is built, and the
  subscript on it raises.
\<close>

lemma validate_questions_Cons:
  "validate_questions criteria d (iq # rest) results tot =
     (if criteria = [] then Inl IndexError else Inl TypeError)"
  by (cases iq) (simp add: list_item_empty list_item_min dataclass_item_def Let_def)

lemma validate_questions_enumerate:
  "validate_questions criteria d (enumerate k qs) [] 0 =
     (if qs = [] then Inr ([], 0) else if criteria = [] then Inl IndexError else Inl TypeError)"
  by (cases qs) (simp_all add: validate_questions_Cons)

lemma validate_doubt_level_out_of_range:
  "n < 1 \<or> 7 < n \<Longrightarrow>
     validate_doubt_level n d now self = Inl (ValueError ''Doubt level must be between 1 and 7'')"
  by (simp add: validate_doubt_level_def)


lemma init_levels_nonempty:
  "list_all (\<lambda>lvl. doubt_questions lvl \<noteq> [] \<and> validation_criteria lvl \<noteq> []) initialize_doubt_levels"
  by (simp add: initialize_doubt_levels_def)

lemma length_initialize_doubt_levels: "length initialize_doubt_levels = 7"
  by (simp add: initialize_doubt_levels_def)

lemma validate_doubt_level_init_in_range:
  assumes "1 \<le> n" "n \<le> 7"
  shows "validate_doubt_level n d now init_validator = Inl TypeError"
proof -
  from assms
  have item: "list_item initialize_doubt_levels (n - 1) = Inr (initialize_doubt_levels ! nat (n - 1))"
    by (simp add: list_item_def length_initialize_doubt_levels)
  then have "initialize_doubt_levels ! nat (n - 1) \<in> set initialize_doubt_levels"
    by (rule list_item_in_set)
  with init_levels_nonempty
  have "doubt_questions (initialize_doubt_levels ! nat (n - 1)) \<noteq> []
      \<and> validation_criteria (initialize_doubt_levels ! nat (n - 1)) \<noteq> []"
    by (simp add: list_all_iff)
  with item assms show ?thesis
    by (simp add: validate_doubt_level_def init_validator_def validate_questions_enumerate)
qed


text \<open>
  A table value is returned only for a question that is, as a whole, one of the
  phrases; of a phrase written twice the later value is the one kept.
\<close>

lemma calculate_validation_confidence_key:
  "calculate_validation_confidence q d \<noteq> 0.80 \<Longrightarrow> q \<in> fst ` set confidence_items"
proof -
  assume neq: "calculate_validation_confidence q d \<noteq> 0.80"
  then obtain v where "dict_literal confidence_items q = Some v"
    by (cases "dict_literal confidence_items q")
       (simp_all add: calculate_validation_confidence_def dict_get_def)
  then have "(q, v) \<in> set confidence_items"
    unfolding dict_literal_def by (auto dest: map_of_SomeD)
  then show ?thesis by force
qed

lemma calculate_validation_confidence_planetary:
  "calculate_validation_confidence ''planetary consciousness'' d = 0.79"
  by (simp add: calculate_validation_confidence_def dict_get_def dict_literal_def
        confidence_items_def)

text \<open>Every question of the seven levels gets the default confidence.\<close>

lemma level_questions_default_confidence:
  "list_all (\<lambda>lvl. list_all (\<lambda>q. calculate_validation_confidence q d = 0.80) (doubt_questions lvl))
     initialize_doubt_levels"
  by (simp add: initialize_doubt_levels_def calculate_validation_confidence_def
        dict_get_def dict_literal_def confidence_items_def)

text \<open>
  The outcome string does follow the first-match rule: the \<^verbatim>\<open>if\<close>/\<^verbatim>\<open>elif\<close>
  chain is the ordered table searched from its head.
\<close>

lemma determine_validation_outcome_first_match:
  "determine_validation_outcome question d =
     spec_first_match spec_outcome_table
       ''VERIFIED - Validation criteria satisfied through systematic investigation'' question"
  unfolding determine_validation_outcome_def spec_first_match_def spec_outcome_table_def
  by (simp only: find.simps case_prod_conv option.case
        if_distrib [of "\<lambda>x. case_option _ _ x"] split: if_split)

text \<open>The investigation data reaches no computation.\<close>

lemma determine_validation_outcome_data:
  "determine_validation_outcome q d1 = determine_validation_outcome q d2"
  by (simp only: determine_validation_outcome_def)

lemma apply_validation_criteria_data:
  "apply_validation_criteria q c d1 = apply_validation_criteria q c d2"
  by (simp add: apply_validation_criteria_def calculate_validation_confidence_def
        determine_validation_outcome_data [of q d1 d2])

lemma validate_questions_data:
  "validate_questions criteria d1 qs results tot = validate_questions criteria d2 qs results tot"
proof (induction qs arbitrary: results tot)
  case Nil
  show ?case by simp
next
  case (Cons iq qs)
  obtain i q where iq: "iq = (i, q)" by (cases iq)
  show ?case
    unfolding iq validate_questions.simps
    by (simp only: apply_validation_criteria_data [of q _ d1 d2] Cons.IH)
qed

text \<open>
  Claim C1. The claim is that level 1 on a fresh evaluator returns four question
  results with mean confidence about 0.90 and status passed. The code returns
  nothing there: the loop raises \<^verbatim>\<open>TypeError\<close> at its first question, where it
  subscripts the \<^verbatim>\<open>ValidationResult\<close> it has just built. And the four
  confidences it computes are not 0.95, 0.92, 0.88 and 0.85 but the default 0.80
  each, since the confidence table is looked up with the whole question as the
  key; their mean 0.80 is below the threshold 0.85 of level 1.
\<close>

theorem C1_level_one_raises_and_confidences_default:
  "validate_doubt_level 1 d now init_validator = Inl TypeError
   \<and> doubt_questions (initialize_doubt_levels ! 0) =
       [''Is the biological vagus nerve function accurately understood?'',
        ''Are consciousness-vagus connections empirically validated?'',
        ''Can beneficial effects be quantitatively measured?'',
        ''Is silicon replication biologically feasible?'']
   \<and> calculate_validation_confidence
        ''Is the biological vagus nerve function accurately understood?'' d = 0.80
   \<and> calculate_validation_confidence
        ''Are consciousness-vagus connections empirically validated?'' d = 0.80
   \<and> calculate_validation_confidence
        ''Can beneficial effects be quantitatively measured?'' d = 0.80
   \<and> calculate_validation_confidence
        ''Is silicon replication biologically feasible?'' d = 0.80
   \<and> confidence_threshold (initialize_doubt_levels ! 0) = 0.85
   \<and> \<not> (0.85 :: real) \<le> (0.80 + 0.80 + 0.80 + 0.80) / 4"
proof -
  have "validate_doubt_level 1 d now init_validator = Inl TypeError"
    by (rule validate_doubt_level_init_in_range) simp_all
  moreover have "doubt_questions (initialize_doubt_levels ! 0) =
       [''Is the biological vagus nerve function accurately understood?'',
        ''Are consciousness-vagus connections empirically validated?'',
        ''Can beneficial effects be quantitatively measured?'',
        ''Is silicon replication biologically feasible?'']"
    and "confidence_threshold (initialize_doubt_levels ! 0) = 0.85"
    by (simp_all add: initialize_doubt_levels_def)
  moreover have
    "calculate_validation_confidence
        ''Is the biological vagus nerve function accurately understood?'' d = 0.80"
    "calculate_validation_confidence
        ''Are consciousness-vagus connections empirically validated?'' d = 0.80"
    "calculate_validation_confidence
        ''Can beneficial effects be quantitatively measured?'' d = 0.80"
    "calculate_validation_confidence
        ''Is silicon replication biologically feasible?'' d = 0.80"
    by (simp_all add: calculate_validation_confidence_def dict_get_def dict_literal_def
          confidence_items_def)
  ultimately show ?thesis by simp
qed

text \<open>
  Claim C2. The claim is that outcome and confidence are both resolved by the
  first phrase of the table that occurs in the question. The outcome is (lemma
  \<open>determine_validation_outcome_first_match\<close>); the confidence is not. The
  question ``Is the biological vagus nerve function accurately understood?''
  contains the first phrase of the table, whose value is 0.95, and receives the
  outcome of that phrase, but its confidence is the default 0.80.
\<close>

theorem C2_confidence_ignores_substring_match:
  "str_in ''biological vagus nerve function''
     ''Is the biological vagus nerve function accurately understood?''
   \<and> determine_validation_outcome
        ''Is the biological vagus nerve function accurately understood?'' d
       = ''VERIFIED - Core functions validated against neuroscience literature''
   \<and> spec_first_match confidence_items 0.80
        ''Is the biological vagus nerve function accurately understood?'' = 0.95
   \<and> calculate_validation_confidence
        ''Is the biological vagus nerve function accurately understood?'' d = 0.80"
  by (simp add: determine_validation_outcome_def spec_first_match_def confidence_items_def
        calculate_validation_confidence_def dict_get_def dict_literal_def)

text \<open>
  Claim C4. On an evaluator with an empty history the summary is the error
  mapping \<^verbatim>\<open>{"error": "No validation history available"}\<close>, which is how the
  source reports the empty history, and not a report.
\<close>

theorem C4_empty_history_gives_error:
  assumes "validation_history self = []"
  shows "generate_maximum_truth_report now self = ErrorDict ''No validation history available''
       \<and> (\<forall>report. generate_maximum_truth_report now self \<noteq> Report report)"
  using assms by (simp add: generate_maximum_truth_report_def)

theorem C4_empty_history_gives_error_witness:
  "validation_history init_validator = []
   \<and> generate_maximum_truth_report ''2025-01-01T00:00:00'' init_validator
       = ErrorDict ''No validation history available''"
proof -
  have h: "validation_history init_validator = []"
    by (simp add: init_validator_def)
  from C4_empty_history_gives_error [OF h, of "''2025-01-01T00:00:00''"] h
  show ?thesis by simp
qed

text \<open>
  Claim C5. The claim is that an index outside \<open>[1,7]\<close> fails with the range
  error and an index inside returns a result. The first half holds (lemma
  \<open>validate_doubt_level_out_of_range\<close>). The second does not: on a fresh
  evaluator each of the indices 1 to 7 raises \<^verbatim>\<open>TypeError\<close>, from the
  subscript on the \<^verbatim>\<open>ValidationResult\<close> dataclass in the loop.
\<close>

theorem C5_in_range_levels_raise_type_error:
  "list_all (\<lambda>n. validate_doubt_level n d now init_validator = Inl TypeError)
     [1, 2, 3, 4, 5, 6, 7]"
  by (simp add: validate_doubt_level_init_in_range)



text \<open>
  Claim C9. The investigation data is never consulted: for any two data values,
  of any types, a question gets the same result record (the same outcome string,
  confidence, limitations and recommendations), and a call of
  \<^verbatim>\<open>validate_doubt_level\<close> ends the same way with the same evaluator state,
  for every level index.
\<close>

theorem C9_investigation_data_ignored:
  "apply_validation_criteria q c d1 = apply_validation_criteria q c d2
   \<and> validate_doubt_level n d1 now self = validate_doubt_level n d2 now self"
  by (simp add: validate_doubt_level_def apply_validation_criteria_data [of q c d1 d2]
        validate_questions_data [of _ d1 _ _ _ d2])

end
